theory Spec2Isabelle
  imports Main "HOL-Library.Word" "HOL-Library.Signed_Division"
begin

unbundle bit_operations_syntax

chapter \<open>The Linux executor backend (executor/executor\_linux.h)\<close>

text \<open>
  A shallow embedding of the Linux backend of the executor: the remote coverage handle
  codec, the layout of the remote-enable control structure, the coverage engine
  (\<open>cover_open\<close>, \<open>cover_reset\<close>, \<open>cover_collect\<close>, \<open>cover_check\<close>), the syscall
  executor, the kernel bitness detector and \<open>doexit\<close>.

  Calls into the operating system are modelled by their results: every function that
  talks to the kernel or to libc takes a record (or function) giving what each call
  returns, so that every outcome the code can observe is an input of the model. The
  coverage engine and the bitness detector also report the calls they made, in the
  order they made them (\<open>event\<close>).
\<close>

section \<open>Remote coverage handles\<close>

type_synonym u64 = "64 word"

definition KCOV_SUBSYSTEM_COMMON :: u64 where
  "KCOV_SUBSYSTEM_COMMON = push_bit 56 0x00"

definition KCOV_SUBSYSTEM_USB :: u64 where
  "KCOV_SUBSYSTEM_USB = push_bit 56 0x01"

definition KCOV_SUBSYSTEM_MASK :: u64 where
  "KCOV_SUBSYSTEM_MASK = push_bit 56 0xff"

definition KCOV_INSTANCE_MASK :: u64 where
  "KCOV_INSTANCE_MASK = 0xffffffff"

text \<open>
  \<^verbatim>\<open>if (subsys & ~KCOV_SUBSYSTEM_MASK || inst & ~KCOV_INSTANCE_MASK) return 0;
  return subsys | inst;\<close>
\<close>

definition kcov_remote_handle :: "u64 \<Rightarrow> u64 \<Rightarrow> u64" where
  "kcov_remote_handle subsys inst =
     (if subsys AND NOT KCOV_SUBSYSTEM_MASK \<noteq> 0 \<or> inst AND NOT KCOV_INSTANCE_MASK \<noteq> 0
      then 0
      else subsys OR inst)"

section \<open>Layout of the remote-enable control structure\<close>

text \<open>
  A C object type is represented by its size and its alignment, in bytes. A structure
  places each member at the next offset that is a multiple of the member's alignment and
  is padded at the end to a multiple of its own alignment, the largest alignment of its
  members. The attribute \<open>packed\<close> gives every member alignment 1; \<open>aligned(n)\<close> raises
  the alignment of the structure to at least \<open>n\<close>. An array of \<open>n\<close> elements has \<open>n\<close>
  times the size of its element and the element's alignment (so a zero-length array
  takes no room).
\<close>

type_synonym ctype = "nat \<times> nat"

definition sizeof :: "ctype \<Rightarrow> nat" where
  "sizeof t = fst t"

definition alignof :: "ctype \<Rightarrow> nat" where
  "alignof t = snd t"

definition c_unsigned :: ctype where
  "c_unsigned = (4, 4)"

definition c_uint64 :: ctype where
  "c_uint64 = (8, 8)"

definition c_array :: "ctype \<Rightarrow> nat \<Rightarrow> ctype" where
  "c_array t n = (n * sizeof t, alignof t)"

definition align_up :: "nat \<Rightarrow> nat \<Rightarrow> nat" where
  "align_up off a = ((off + a - 1) div a) * a"

fun place_members :: "bool \<Rightarrow> nat \<Rightarrow> ctype list \<Rightarrow> nat" where
  "place_members packed off [] = off"
| "place_members packed off (t # ts) =
     place_members packed (align_up off (if packed then 1 else alignof t) + sizeof t) ts"

definition c_struct :: "bool \<Rightarrow> nat \<Rightarrow> ctype list \<Rightarrow> ctype" where
  "c_struct packed aligned ms =
     (let a = fold max (map (\<lambda>t. if packed then 1 else alignof t) ms) (max 1 aligned)
      in (align_up (place_members packed 0 ms) a, a))"

text \<open>\<^verbatim>\<open>struct uint64_aligned64 { uint64 v; } __attribute__((aligned(8)));\<close>\<close>

definition uint64_aligned64 :: ctype where
  "uint64_aligned64 = c_struct False 8 [c_uint64]"

text \<open>\<^verbatim>\<open>struct uint64_aligned32 { uint64 v; } __attribute__((packed, aligned(4)));\<close>\<close>

definition uint64_aligned32 :: ctype where
  "uint64_aligned32 = c_struct True 4 [c_uint64]"

text \<open>
  \<^verbatim>\<open>template <typename kernel_u64_t, int N> struct kcov_remote_arg {
    unsigned trace_mode; unsigned area_size; unsigned num_handles;
    kernel_u64_t common_handle; kernel_u64_t handles[N]; };\<close>
\<close>

definition kcov_remote_arg :: "ctype \<Rightarrow> nat \<Rightarrow> ctype" where
  "kcov_remote_arg kernel_u64_t N =
     c_struct False 0
       [c_unsigned, c_unsigned, c_unsigned, kernel_u64_t, c_array kernel_u64_t N]"

definition kcov_remote_arg32 :: ctype where
  "kcov_remote_arg32 = kcov_remote_arg uint64_aligned32 0"

definition kcov_remote_arg64 :: ctype where
  "kcov_remote_arg64 = kcov_remote_arg uint64_aligned64 0"

section \<open>Process state and the calls into the operating system\<close>

text \<open>
  The calls a function makes, with the arguments that matter here: the path of
  \<^verbatim>\<open>open\<close>; the descriptor and the byte count of \<^verbatim>\<open>read\<close>; the descriptor of
  \<^verbatim>\<open>close\<close>; the old and the new descriptor of \<^verbatim>\<open>dup2\<close>; the command of
  \<^verbatim>\<open>system\<close>; the length and the descriptor of \<^verbatim>\<open>mmap\<close>; the path and the mode of
  \<^verbatim>\<open>fopen\<close>.
\<close>

datatype event =
    Ev_open string
  | Ev_read int nat
  | Ev_close int
  | Ev_dup2 int int
  | Ev_system string
  | Ev_mmap int int
  | Ev_fopen string string
  | Ev_fclose
  | Ev_fseek_end
  | Ev_ftell

text \<open>
  How a run ends early: \<open>Fail\<close> is the executor's fatal \<^verbatim>\<open>fail(msg)\<close>, which prints the
  diagnostic and aborts the process; \<open>Segv\<close> is a memory fault, raised where the code
  passes on a null \<^verbatim>\<open>FILE *\<close> or reads through \<^verbatim>\<open>MAP_FAILED\<close>.
\<close>

datatype error = Fail string | Segv

text \<open>
  The coverage context \<^verbatim>\<open>cover_t\<close>. Its declaration belongs to the executor's main file;
  the fields are the ones this backend uses. \<open>data\<close> and \<open>data_end\<close> are addresses;
  \<open>data\<close> is an \<^verbatim>\<open>int *\<close> (the backend assigns it an \<^verbatim>\<open>(int *)\<close> and indexes it).
  \<open>size_cov\<close> is the field \<^verbatim>\<open>size\<close>.
\<close>

record cover_t =
  fd :: int
  size_cov :: int
  data :: int
  data_end :: int

definition MAP_FAILED :: int where
  "MAP_FAILED = -1"

text \<open>
  The globals of the process that this backend reads and writes, the \<^verbatim>\<open>cover_t\<close>
  objects by address (\<open>0\<close> is the null pointer), the bytes of memory by address, and
  the log of calls made so far.
\<close>

record state =
  flag_coverage :: bool
  is_kernel_64_bit :: bool
  cover_size :: int
  mmap_alloc_size :: int
  current_cover :: nat
  covers :: "nat \<Rightarrow> cover_t"
  mem :: "int \<Rightarrow> 8 word"
  errno :: int
  trace :: "event list"

text \<open>
  A store and a load of a \<^verbatim>\<open>uint64\<close> at an address: 8 bytes, the least significant
  first.
\<close>

definition store_u64 :: "(int \<Rightarrow> 8 word) \<Rightarrow> int \<Rightarrow> u64 \<Rightarrow> (int \<Rightarrow> 8 word)" where
  "store_u64 m a v =
     (\<lambda>x. if a \<le> x \<and> x < a + 8 then ucast (drop_bit (8 * nat (x - a)) v) else m x)"

definition load_u64 :: "(int \<Rightarrow> 8 word) \<Rightarrow> int \<Rightarrow> u64" where
  "load_u64 m a =
     word_of_nat (foldr (\<lambda>b acc. unat b + 256 * acc) (map (\<lambda>i. m (a + int i)) [0..<8]) 0)"

text \<open>
  The state in which the process starts: \<^verbatim>\<open>int cover_size;\<close> is zero,
  \<^verbatim>\<open>size_t mmap_alloc_size = 30000;\<close>, the thread-local \<open>current_cover\<close> is null.
  The two flags are set by the executor's main file before this backend runs.
\<close>

definition initial_state :: "bool \<Rightarrow> bool \<Rightarrow> state" where
  "initial_state coverage wide =
     \<lparr>flag_coverage = coverage, is_kernel_64_bit = wide, cover_size = 0,
      mmap_alloc_size = 30000, current_cover = 0,
      covers = (\<lambda>_. \<lparr>fd = 0, size_cov = 0, data = 0, data_end = 0\<rparr>),
      mem = (\<lambda>_. 0), errno = 0, trace = []\<rparr>"

section \<open>The coverage engine\<close>

subsection \<open>\<open>cover_open\<close>\<close>

text \<open>What the calls of \<open>cover_open\<close> return, one field per call site.\<close>

record open_env =
  open_first :: int
  fopen_append_ok :: bool
  open_second :: int
  dup2_result :: int
  system_result :: int
  mmap_result :: int

text \<open>
  \<open>cover_open cov extra\<close>. The device is opened; when that fails the file is created
  with \<^verbatim>\<open>fopen("/dev/cov", "a+")\<close> and closed again (\<^verbatim>\<open>fclose\<close> of a null stream faults).
  It is then opened once more, duplicated onto \<open>cov->fd\<close> and closed. \<open>cover_size\<close>
  becomes 640000, \<^verbatim>\<open>/root/cov\<close> is run, \<open>mmap_alloc_size\<close> becomes
  \<open>cover_size * (is_kernel_64_bit ? 8 : 4)\<close>, and \<open>cover_size\<close> bytes of the
  descriptor are mapped. The first 1000 elements of the mapping are read for the debug
  output before the result is compared with \<open>MAP_FAILED\<close>, so a failed mapping faults
  there. \<open>data_end\<close> is \<open>data + cover_size\<close>, in elements of \<^verbatim>\<open>int\<close> (4 bytes).
\<close>

definition cover_open :: "open_env \<Rightarrow> nat \<Rightarrow> bool \<Rightarrow> state \<Rightarrow> error + state" where
  "cover_open env cov extra s =
     (let created = (open_first env = -1);
          ev1 = [Ev_open ''/dev/cov''] @
                (if created then [Ev_fopen ''/dev/cov'' ''a+'', Ev_fclose] else [])
      in if created \<and> \<not> fopen_append_ok env then Inl Segv
      else
        let fd' = open_second env;
            ev2 = ev1 @ [Ev_open ''/dev/cov'', Ev_dup2 fd' (fd (covers s cov))]
        in if dup2_result env < 0 then Inl (Fail ''filed to dup2(%d, %d) cover fd'')
        else
          let ev3 = ev2 @ [Ev_close fd', Ev_system ''/root/cov''];
              s1 = s\<lparr>cover_size := 640000\<rparr>
          in if system_result env \<noteq> 0 then Inl (Fail ''cover init trace write failed'')
          else
            let s2 = s1\<lparr>mmap_alloc_size :=
                         cover_size s1 * (if is_kernel_64_bit s1 then 8 else 4)\<rparr>;
                ev4 = ev3 @ [Ev_mmap (cover_size s2) (fd (covers s2 cov))];
                s3 = s2\<lparr>covers := (covers s2)
                         (cov := (covers s2 cov)\<lparr>data := mmap_result env\<rparr>)\<rparr>
            in if data (covers s3 cov) = MAP_FAILED then Inl Segv
            else
              Inr (s3\<lparr>covers := (covers s3)
                         (cov := (covers s3 cov)
                            \<lparr>data_end := data (covers s3 cov) + 4 * cover_size s3\<rparr>),
                       trace := trace s3 @ ev4\<rparr>))"

subsection \<open>\<open>cover_reset\<close>\<close>

text \<open>
  \<^verbatim>\<open>if (!flag_coverage) return;
  if (cov == 0) { if (current_cover == 0) fail("cover_reset: current_cover == 0");
                  cov = current_cover; }
  *(uint64 *)cov->data = 0;\<close>
\<close>

definition cover_reset :: "nat \<Rightarrow> state \<Rightarrow> error + state" where
  "cover_reset cov s =
     (if \<not> flag_coverage s then Inr s
      else
        (case (if cov = 0
               then (if current_cover s = 0
                     then Inl (Fail ''cover_reset: current_cover == 0'')
                     else Inr (current_cover s))
               else Inr cov) of
           Inl failure \<Rightarrow> Inl failure
         | Inr cov' \<Rightarrow> Inr (s\<lparr>mem := store_u64 (mem s) (data (covers s cov')) 0\<rparr>)))"

subsection \<open>\<open>cover_collect\<close>\<close>

text \<open>What the calls of \<open>cover_collect\<close> return.\<close>

record collect_env =
  fopen_read_ok :: bool
  ftell_result :: int

text \<open>The conversion of a \<^verbatim>\<open>long\<close> to \<^verbatim>\<open>int\<close> (32 bits, two's complement).\<close>

definition to_int32 :: "int \<Rightarrow> int" where
  "to_int32 n = sint (word_of_int n :: 32 word)"

text \<open>
  \<^verbatim>\<open>if ((fp = fopen("/dev/cov", "r")) == NULL) debug(...);
  fseek(fp, 0, SEEK_END); filesize = ftell(fp); cov->size = filesize / 32;\<close>
  A null stream is only reported and then handed to \<^verbatim>\<open>fseek\<close>, which faults.
  \<open>sdiv\<close> is C's division, truncating towards zero.
\<close>

definition cover_collect :: "collect_env \<Rightarrow> nat \<Rightarrow> state \<Rightarrow> error + state" where
  "cover_collect env cov s =
     (if \<not> fopen_read_ok env then Inl Segv
      else
        let filesize = to_int32 (ftell_result env)
        in Inr (s\<lparr>covers := (covers s)(cov := (covers s cov)\<lparr>size_cov := filesize sdiv 32\<rparr>),
                 trace := trace s @ [Ev_fopen ''/dev/cov'' ''r'', Ev_fseek_end, Ev_ftell]\<rparr>))"

subsection \<open>\<open>cover_check\<close>\<close>

text \<open>\<^verbatim>\<open>static bool cover_check(uint32 pc) { return true; }\<close>\<close>

definition cover_check :: "32 word \<Rightarrow> bool" where
  "cover_check pc = True"

section \<open>The syscall executor\<close>

text \<open>
  A call descriptor: its name, its kernel call number and, for a pseudo-syscall, the
  routine that implements it. A routine and the kernel call gate take the argument slots
  and the current \<open>errno\<close> and give the result and the \<open>errno\<close> they leave.
\<close>

type_synonym invocation = "int list \<Rightarrow> int \<Rightarrow> int \<times> int"

record call_t =
  name :: string
  sys_nr :: int
  call :: "invocation option"

definition EINVAL :: int where
  "EINVAL = 22"

text \<open>
  \<^verbatim>\<open>if (c->call) return c->call(a[0], ..., a[8]);
  intptr_t res = syscall(c->sys_nr, a[0], ..., a[5]);
  if (!flag_coverage && res == -1 && !strcmp(c->name, "prctl")) errno = EINVAL;
  return res;\<close>
\<close>

definition execute_syscall ::
    "(int \<Rightarrow> invocation) \<Rightarrow> call_t \<Rightarrow> (nat \<Rightarrow> int) \<Rightarrow> state \<Rightarrow> int \<times> state" where
  "execute_syscall syscall c a s =
     (case call c of
        Some f \<Rightarrow>
          (let (temp, e) = f (map a [0..<9]) (errno s) in (temp, s\<lparr>errno := e\<rparr>))
      | None \<Rightarrow>
          (let (res, e) = syscall (sys_nr c) (map a [0..<6]) (errno s)
           in if \<not> flag_coverage s \<and> res = -1 \<and> name c = ''prctl''
              then (res, s\<lparr>errno := EINVAL\<rparr>)
              else (res, s\<lparr>errno := e\<rparr>)))"

section \<open>The kernel bitness detector\<close>

text \<open>
  What \<^verbatim>\<open>open\<close> returns for a path (a descriptor, or \<open>-1\<close>) and what \<^verbatim>\<open>read\<close> stores for
  a descriptor: the bytes it stored, or \<open>None\<close> when it fails. \<^verbatim>\<open>read\<close> stores at most
  the number of bytes asked for and returns how many it stored.
\<close>

record kallsyms_env =
  sys_open :: "string \<Rightarrow> int"
  sys_read :: "int \<Rightarrow> char list option"

text \<open>
  \<open>detect_kernel_bitness\<close>, for an executor whose pointers have \<open>sizeof_ptr\<close> bytes.
  The result is \<open>True\<close> for a 64-bit kernel. \<open>buf[8]\<close> is read only when \<^verbatim>\<open>read\<close> has
  returned 16, that is, when all 16 bytes of \<open>buf\<close> were stored.
\<close>

definition detect_kernel_bitness :: "nat \<Rightarrow> kallsyms_env \<Rightarrow> bool \<times> event list" where
  "detect_kernel_bitness sizeof_ptr env =
     (if sizeof_ptr = 8 then (True, [])
      else
        let fd' = sys_open env ''/proc/kallsyms''
        in if fd' \<noteq> -1 then
             let wide =
               (case sys_read env fd' of
                  None \<Rightarrow> True
                | Some bytes \<Rightarrow>
                    (let buf = take 16 bytes
                     in \<not> (length buf = 16 \<and> (buf ! 8 = CHR '' '' \<or> buf ! 8 = CHR 0x09))))
             in (wide, [Ev_open ''/proc/kallsyms'', Ev_read fd' 16, Ev_close fd'])
           else (True, [Ev_open ''/proc/kallsyms'']))"

section \<open>Process termination\<close>

text \<open>
  \<^verbatim>\<open>volatile unsigned i; syscall(__NR_exit_group, status); for (i = 0;; i++) {}\<close>

  The loop has no exit: it is a partial function that returns for no argument. The
  counter is an \<^verbatim>\<open>unsigned\<close> and wraps around.
\<close>

partial_function (option) busy_loop :: "32 word \<Rightarrow> unit option" where
  "busy_loop i = busy_loop (i + 1)"

text \<open>
  How a call of \<open>doexit\<close> can end: the process is gone, with a status, or control is
  back in the caller. \<open>None\<close> is a call that does neither: it runs forever.
  \<open>exit_group_ends\<close> tells whether the kernel honours the termination request.
\<close>

datatype exit_outcome = Process_ended int | Returned_to_caller

definition doexit :: "(int \<Rightarrow> bool) \<Rightarrow> int \<Rightarrow> exit_outcome option" where
  "doexit exit_group_ends status =
     (if exit_group_ends status then Some (Process_ended status)
      else Option.bind (busy_loop 0) (\<lambda>_. Some Returned_to_caller))"

chapter \<open>Properties\<close>

section \<open>Remote coverage handles\<close>

lemma subsystem_mask_eq: "KCOV_SUBSYSTEM_MASK = NOT (mask 56)"
  unfolding KCOV_SUBSYSTEM_MASK_def by (simp add: mask_eq_exp_minus_1)

lemma instance_mask_eq: "KCOV_INSTANCE_MASK = mask 32"
  unfolding KCOV_INSTANCE_MASK_def by (simp add: mask_eq_exp_minus_1)

lemma shifted_subsystem_legal: "(push_bit 56 s :: u64) AND NOT KCOV_SUBSYSTEM_MASK = 0"
  unfolding subsystem_mask_eq by (auto simp add: bit_eq_iff bit_simps)

lemma subsystem_low_bits: "(subsys :: u64) AND NOT KCOV_SUBSYSTEM_MASK = take_bit 56 subsys"
  unfolding subsystem_mask_eq by (simp add: take_bit_eq_mask)

lemma instance_legal_iff: "((inst :: u64) AND NOT KCOV_INSTANCE_MASK = 0) = (inst < 2 ^ 32)"
proof
  assume b: "inst AND NOT KCOV_INSTANCE_MASK = 0"
  then have "inst AND mask 32 = inst"
    unfolding instance_mask_eq by (auto simp add: bit_eq_iff bit_simps)
  moreover have "inst AND mask 32 < 2 ^ 32"
    by (rule and_mask_less') simp
  ultimately show "inst < 2 ^ 32" by simp
next
  assume "inst < 2 ^ 32"
  then have i: "inst AND mask 32 = inst" by (rule less_mask_eq)
  have "(inst AND mask 32) AND NOT (mask 32) = 0"
    by (simp add: and.assoc)
  then show "inst AND NOT KCOV_INSTANCE_MASK = 0"
    by (simp only: i instance_mask_eq)
qed

lemma top_byte_of_combination:
  "drop_bit 56 ((push_bit 56 (s AND mask 8) :: u64) OR (inst AND mask 32)) = s AND mask 8"
  by (auto simp add: bit_eq_iff bit_simps)

lemma low_word_of_combination:
  "((push_bit 56 s :: u64) OR (inst AND mask 32)) AND mask 32 = inst AND mask 32"
  by (auto simp add: bit_eq_iff bit_simps)

text \<open>
  Claim C3, as the code has it. \<open>kcov_remote_handle\<close> takes the subsystem already in
  its place, in the top byte (as \<open>KCOV_SUBSYSTEM_USB\<close> is). For every subsystem id
  \<open>s < 256\<close> and every instance \<open>inst < 2^32\<close>, the handle of \<open>s << 56\<close> and \<open>inst\<close> is
  \<open>(s << 56) | inst\<close>; its top byte is \<open>s\<close> and its low 32 bits are \<open>inst\<close>.
\<close>

theorem kcov_remote_handle_roundtrip:
  fixes s inst :: u64
  assumes "s < 256" and "inst < 2 ^ 32"
  shows "kcov_remote_handle (push_bit 56 s) inst = push_bit 56 s OR inst
       \<and> drop_bit 56 (kcov_remote_handle (push_bit 56 s) inst) = s
       \<and> kcov_remote_handle (push_bit 56 s) inst AND 0xffffffff = inst"
proof -
  from assms(1) have s: "s AND mask 8 = s" by (intro less_mask_eq) simp
  from assms(2) have i: "inst AND mask 32 = inst" by (rule less_mask_eq)
  have m: "(0xffffffff :: u64) = mask 32" by (simp add: mask_eq_exp_minus_1)
  have h: "kcov_remote_handle (push_bit 56 s) inst = push_bit 56 s OR inst"
    using assms(2) by (simp add: kcov_remote_handle_def shifted_subsystem_legal instance_legal_iff)
  have t: "drop_bit 56 (push_bit 56 s OR inst) = s"
    using top_byte_of_combination [of s inst] by (simp only: s i)
  have l: "(push_bit 56 s OR inst) AND 0xffffffff = inst"
    using low_word_of_combination [of s inst] by (simp only: i m)
  show ?thesis by (simp only: h t l)
qed

text \<open>The theorem at subsystem 1 and instance \<open>0xFFFFFFFF\<close>.\<close>

theorem kcov_remote_handle_roundtrip_witness:
  "(1 :: u64) < 256 \<and> (0xFFFFFFFF :: u64) < 2 ^ 32
   \<and> kcov_remote_handle (push_bit 56 1) 0xFFFFFFFF = push_bit 56 1 OR 0xFFFFFFFF
   \<and> drop_bit 56 (kcov_remote_handle (push_bit 56 1) 0xFFFFFFFF) = 1
   \<and> kcov_remote_handle (push_bit 56 1) 0xFFFFFFFF AND 0xffffffff = 0xFFFFFFFF"
proof -
  have a: "(1 :: u64) < 256" and b: "(0xFFFFFFFF :: u64) < 2 ^ 32" by simp_all
  from kcov_remote_handle_roundtrip [OF a b] a b show ?thesis by blast
qed

text \<open>
  Claim C3 as stated fails for a subsystem id that is passed as it is: for subsystem 1
  and instance \<open>0xFFFFFFFF\<close> the bit of the subsystem lies outside the top byte, the
  handle is 0, and neither the subsystem nor the instance can be read back.
\<close>

theorem kcov_remote_handle_unshifted_subsystem:
  "(1 :: u64) < 256 \<and> (0xFFFFFFFF :: u64) < 2 ^ 32
   \<and> kcov_remote_handle 1 0xFFFFFFFF = 0
   \<and> kcov_remote_handle 1 0xFFFFFFFF \<noteq> push_bit 56 1 OR 0xFFFFFFFF
   \<and> (drop_bit 56 (kcov_remote_handle 1 0xFFFFFFFF), kcov_remote_handle 1 0xFFFFFFFF AND 0xffffffff)
       \<noteq> (1, 0xFFFFFFFF)"
  by (simp add: kcov_remote_handle_def KCOV_SUBSYSTEM_MASK_def KCOV_INSTANCE_MASK_def)

text \<open>
  Claim C8, as the code has it. The handle is 0 whenever the subsystem has a bit set
  outside the top byte (below bit 56) or the instance is \<open>2^32\<close> or more.
\<close>

theorem kcov_remote_handle_illegal:
  fixes subsys inst :: u64
  assumes "take_bit 56 subsys \<noteq> 0 \<or> 2 ^ 32 \<le> inst"
  shows "kcov_remote_handle subsys inst = 0"
  using assms
  by (auto simp add: kcov_remote_handle_def subsystem_low_bits instance_legal_iff)

text \<open>The theorem at subsystem 256, and at instance \<open>2^32\<close>.\<close>

theorem kcov_remote_handle_illegal_witness:
  "kcov_remote_handle 256 0 = 0 \<and> kcov_remote_handle 0 (2 ^ 32) = 0"
proof -
  have a: "take_bit 56 (256 :: u64) \<noteq> 0 \<or> 2 ^ 32 \<le> (0 :: u64)" by simp
  have b: "take_bit 56 (0 :: u64) \<noteq> 0 \<or> 2 ^ 32 \<le> (2 ^ 32 :: u64)" by simp
  from kcov_remote_handle_illegal [OF a] kcov_remote_handle_illegal [OF b]
  show ?thesis by simp
qed

text \<open>
  Claim C8 as stated fails for a subsystem in the top byte: \<open>KCOV_SUBSYSTEM_USB\<close> is
  \<open>2^56\<close>, far above 256, and its handle for instance 1 is not 0.
\<close>

theorem kcov_remote_handle_shifted_subsystem_nonzero:
  "256 \<le> KCOV_SUBSYSTEM_USB
   \<and> kcov_remote_handle KCOV_SUBSYSTEM_USB 1 = 0x0100000000000001
   \<and> kcov_remote_handle KCOV_SUBSYSTEM_USB 1 \<noteq> 0"
  by (simp add: kcov_remote_handle_def KCOV_SUBSYSTEM_USB_def KCOV_SUBSYSTEM_MASK_def
      KCOV_INSTANCE_MASK_def)

section \<open>The control structure\<close>

text \<open>
  Claim C9. With no extra handles the narrow control structure takes 20 bytes (the
  common handle, aligned to 4 bytes, follows the three counters at offset 12) and the
  wide one takes 24 bytes (the common handle, aligned to 8 bytes, is at offset 16).
\<close>

theorem kcov_remote_arg_sizes:
  "sizeof kcov_remote_arg32 = 20 \<and> sizeof kcov_remote_arg64 = 24"
  by (simp add: kcov_remote_arg32_def kcov_remote_arg64_def kcov_remote_arg_def
      uint64_aligned32_def uint64_aligned64_def c_struct_def c_array_def c_unsigned_def
      c_uint64_def align_up_def sizeof_def alignof_def)

section \<open>The coverage engine\<close>

text \<open>
  Claim C10. \<open>cover_check\<close> accepts every program counter: no recorded address is
  filtered out.
\<close>

theorem cover_check_accepts_all: "cover_check pc"
  by (simp add: cover_check_def)

text \<open>
  Claim C4, as the code has it. When whole-run coverage collection is enabled
  (\<open>flag_coverage\<close>), \<open>cover_reset\<close> with no context argument and no active context
  fails fatally, with the diagnostic \<^verbatim>\<open>cover_reset: current_cover == 0\<close>.
\<close>

theorem cover_reset_no_context_fails:
  "flag_coverage s \<Longrightarrow> current_cover s = 0 \<Longrightarrow>
     cover_reset 0 s = Inl (Fail ''cover_reset: current_cover == 0'')"
  by (simp add: cover_reset_def)

text \<open>The theorem in the state the process starts in, with coverage collection enabled.\<close>

theorem cover_reset_no_context_fails_witness:
  "flag_coverage (initial_state True True) \<and> current_cover (initial_state True True) = 0
   \<and> cover_reset 0 (initial_state True True) = Inl (Fail ''cover_reset: current_cover == 0'')"
proof -
  have a: "flag_coverage (initial_state True True)"
    and b: "current_cover (initial_state True True) = 0"
    by (simp_all add: initial_state_def)
  from cover_reset_no_context_fails [OF a b] a b show ?thesis by blast
qed

text \<open>
  Claim C4 as stated fails when coverage collection is disabled: \<open>cover_reset\<close> tests
  \<open>flag_coverage\<close> first and returns, with the state as it was, although no context is
  given and none is active.
\<close>

theorem cover_reset_without_coverage_returns:
  "\<not> flag_coverage (initial_state False True) \<and> current_cover (initial_state False True) = 0
   \<and> cover_reset 0 (initial_state False True) = Inr (initial_state False True)"
  by (simp add: cover_reset_def initial_state_def)

lemma to_int32_small: "0 \<le> n \<Longrightarrow> n < 2 ^ 31 \<Longrightarrow> to_int32 n = n"
  unfolding to_int32_def
  by (simp add: int_word_sint)

lemma sdiv_nonneg: "0 \<le> (n :: int) \<Longrightarrow> n sdiv 32 = n div 32"
  by (simp add: signed_divide_int_def sgn_if)

text \<open>
  Claim C1, as the code has it. \<open>cover_collect\<close> opens the file \<^verbatim>\<open>/dev/cov\<close>, seeks to
  its end and stores in \<open>cov->size\<close> the position it finds there, the length of the file in
  bytes, divided by 32 (for a length below \<open>2^31\<close>). It does not read the entry counter
  at the head of the buffer, and it changes nothing else: memory, the active context
  and the other fields stay as they were, and the only calls made are \<^verbatim>\<open>fopen\<close>,
  \<^verbatim>\<open>fseek\<close> and \<^verbatim>\<open>ftell\<close>, so tracing is not disabled.
\<close>

theorem cover_collect_file_length:
  assumes "fopen_read_ok env" and "0 \<le> ftell_result env" and "ftell_result env < 2 ^ 31"
  shows "cover_collect env cov s =
           Inr (s\<lparr>covers := (covers s)
                      (cov := (covers s cov)\<lparr>size_cov := ftell_result env div 32\<rparr>),
                  trace := trace s @ [Ev_fopen ''/dev/cov'' ''r'', Ev_fseek_end, Ev_ftell]\<rparr>)"
  using assms by (simp add: cover_collect_def to_int32_small sdiv_nonneg)

text \<open>The theorem for a file of 640000 bytes: 20000 entries are reported.\<close>

theorem cover_collect_file_length_witness:
  "\<not> isl (cover_collect \<lparr>fopen_read_ok = True, ftell_result = 640000\<rparr> 1
       (initial_state True True))
   \<and> size_cov (covers (projr (cover_collect \<lparr>fopen_read_ok = True, ftell_result = 640000\<rparr> 1
       (initial_state True True))) 1) = 20000"
proof -
  have a: "fopen_read_ok \<lparr>fopen_read_ok = True, ftell_result = 640000\<rparr>"
    and b: "0 \<le> ftell_result \<lparr>fopen_read_ok = True, ftell_result = 640000\<rparr>"
    and c: "ftell_result \<lparr>fopen_read_ok = True, ftell_result = 640000\<rparr> < 2 ^ 31"
    by simp_all
  show ?thesis
    by (simp add: cover_collect_file_length [OF a b c])
qed

text \<open>
  Claim C1 as stated fails. A context is opened (the buffer is mapped at address 4096)
  and reset, so the counter at the head of the buffer reads 0. The kernel then records
  one entry: the counter reads 1. The file \<^verbatim>\<open>/dev/cov\<close> is 16 bytes long, the counter and
  the entry. \<open>cover_collect\<close> stores \<open>16 / 32 = 0\<close>: not the counter, and not \<open>\<ge> 1\<close>.
\<close>

theorem cover_collect_ignores_entry_counter:
  "(case cover_open \<lparr>open_first = 3, fopen_append_ok = True, open_second = 3,
                     dup2_result = 0, system_result = 0, mmap_result = 4096\<rparr>
           1 False (initial_state True True) of
      Inl _ \<Rightarrow> False
    | Inr s1 \<Rightarrow>
       (case cover_reset 1 s1 of
          Inl _ \<Rightarrow> False
        | Inr s2 \<Rightarrow>
           (case cover_collect \<lparr>fopen_read_ok = True, ftell_result = 16\<rparr> 1
                   (s2\<lparr>mem := store_u64 (mem s2) (data (covers s2 1)) 1\<rparr>) of
              Inl _ \<Rightarrow> False
            | Inr s3 \<Rightarrow>
                load_u64 (mem s2) (data (covers s2 1)) = 0
                \<and> load_u64 (mem s3) (data (covers s3 1)) = 1
                \<and> size_cov (covers s3 1) = 0)))"
  by (simp add: cover_open_def cover_reset_def cover_collect_def initial_state_def
      MAP_FAILED_def Let_def store_u64_def load_u64_def to_int32_def signed_divide_int_def
      upt_rec)

lemma cover_open_success:
  assumes "cover_open env cov extra s = Inr s'"
  shows "cover_size s' = 640000"
    and "mmap_alloc_size s' = 640000 * (if is_kernel_64_bit s then 8 else 4)"
    and "last (trace s') = Ev_mmap 640000 (fd (covers s cov))"
    and "data (covers s' cov) = mmap_result env"
    and "data_end (covers s' cov) = mmap_result env + 2560000"
  using assms
  by (auto simp add: cover_open_def Let_def split: if_splits)

text \<open>
  Claim C2, on the code. Every call succeeds and \<^verbatim>\<open>mmap\<close> returns address 4096. On a 64-bit
  kernel \<open>mmap_alloc_size\<close> is computed as \<open>640000 * 8 = 5120000\<close>, but the length passed
  to \<^verbatim>\<open>mmap\<close> is \<open>cover_size = 640000\<close> bytes and \<open>data_end\<close> is \<open>2560000\<close> bytes past
  \<open>data\<close> (640000 elements of \<^verbatim>\<open>int\<close>). On a 32-bit kernel the mapping and \<open>data_end\<close>
  are the same; only \<open>mmap_alloc_size\<close> differs.
\<close>

theorem cover_open_mapping:
  "(case cover_open \<lparr>open_first = 3, fopen_append_ok = True, open_second = 3,
                     dup2_result = 0, system_result = 0, mmap_result = 4096\<rparr>
           1 False (initial_state True True) of
      Inl _ \<Rightarrow> False
    | Inr s \<Rightarrow>
        is_kernel_64_bit s \<and> cover_size s = 640000 \<and> mmap_alloc_size s = 5120000
        \<and> last (trace s) = Ev_mmap 640000 0
        \<and> data (covers s 1) = 4096
        \<and> data_end (covers s 1) = 4096 + 2560000)
   \<and> (case cover_open \<lparr>open_first = 3, fopen_append_ok = True, open_second = 3,
                     dup2_result = 0, system_result = 0, mmap_result = 4096\<rparr>
           1 False (initial_state True False) of
      Inl _ \<Rightarrow> False
    | Inr s \<Rightarrow>
        \<not> is_kernel_64_bit s \<and> cover_size s = 640000 \<and> mmap_alloc_size s = 2560000
        \<and> last (trace s) = Ev_mmap 640000 0
        \<and> data (covers s 1) = 4096
        \<and> data_end (covers s 1) = 4096 + 2560000)"
  by (simp add: cover_open_def initial_state_def MAP_FAILED_def Let_def)

section \<open>The syscall executor\<close>

text \<open>
  Claim C6, as the code has it. For a descriptor without a routine of its own (the call
  goes through the kernel call gate) that is named \<^verbatim>\<open>prctl\<close>, with coverage collection
  disabled and a result of \<open>-1\<close>, \<open>errno\<close> is set to \<open>EINVAL\<close> whatever the kernel left
  there. For every other call through the gate (another name, coverage enabled or
  another result) and for every call through a descriptor's own routine, the result and
  \<open>errno\<close> are those the call gave.
\<close>

theorem execute_syscall_errno:
  "(call c = None \<longrightarrow> \<not> flag_coverage s \<longrightarrow> name c = ''prctl'' \<longrightarrow>
      syscall (sys_nr c) (map a [0..<6]) (errno s) = (-1, e) \<longrightarrow>
        execute_syscall syscall c a s = (-1, s\<lparr>errno := EINVAL\<rparr>))
   \<and> (call c = None \<longrightarrow> (flag_coverage s \<or> res \<noteq> -1 \<or> name c \<noteq> ''prctl'') \<longrightarrow>
      syscall (sys_nr c) (map a [0..<6]) (errno s) = (res, e) \<longrightarrow>
        execute_syscall syscall c a s = (res, s\<lparr>errno := e\<rparr>))
   \<and> (call c = Some f \<longrightarrow>
      f (map a [0..<9]) (errno s) = (res, e) \<longrightarrow>
        execute_syscall syscall c a s = (res, s\<lparr>errno := e\<rparr>))"
  by (auto simp add: execute_syscall_def)

text \<open>
  The theorem for a \<^verbatim>\<open>prctl\<close> that returns \<open>-1\<close> and leaves \<open>errno = 1\<close>: through the
  gate with coverage disabled, through the gate with coverage enabled, and through a
  routine of the descriptor's own.
\<close>

theorem execute_syscall_errno_witness:
  "execute_syscall (\<lambda>nr args e. (-1, 1)) \<lparr>name = ''prctl'', sys_nr = 157, call = None\<rparr> (\<lambda>_. 0)
       (initial_state False True)
     = (-1, (initial_state False True)\<lparr>errno := EINVAL\<rparr>)
   \<and> execute_syscall (\<lambda>nr args e. (-1, 1)) \<lparr>name = ''prctl'', sys_nr = 157, call = None\<rparr> (\<lambda>_. 0)
       (initial_state True True)
     = (-1, (initial_state True True)\<lparr>errno := 1\<rparr>)
   \<and> execute_syscall (\<lambda>nr args e. (-1, 1))
       \<lparr>name = ''prctl'', sys_nr = 157, call = Some (\<lambda>args e. (-1, 1))\<rparr> (\<lambda>_. 0)
       (initial_state False True)
     = (-1, (initial_state False True)\<lparr>errno := 1\<rparr>)"
  using execute_syscall_errno
          [of "\<lparr>name = ''prctl'', sys_nr = 157, call = None\<rparr>" "initial_state False True"
              "\<lambda>nr args e. (-1, 1)" "\<lambda>_. 0" 1 "-1" "\<lambda>args e. (-1, 1)"]
        execute_syscall_errno
          [of "\<lparr>name = ''prctl'', sys_nr = 157, call = None\<rparr>" "initial_state True True"
              "\<lambda>nr args e. (-1, 1)" "\<lambda>_. 0" 1 "-1" "\<lambda>args e. (-1, 1)"]
        execute_syscall_errno
          [of "\<lparr>name = ''prctl'', sys_nr = 157, call = Some (\<lambda>args e. (-1, 1))\<rparr>"
              "initial_state False True"
              "\<lambda>nr args e. (-1, 1)" "\<lambda>_. 0" 1 "-1" "\<lambda>args e. (-1, 1)"]
  by (simp add: initial_state_def)

text \<open>
  Claim C6 as stated fails for a descriptor named \<^verbatim>\<open>prctl\<close> that carries a routine of its
  own: with coverage collection disabled the routine returns \<open>-1\<close> and leaves
  \<open>errno = 1\<close>, and \<open>errno\<close> stays 1.
\<close>

theorem execute_syscall_custom_prctl_not_normalized:
  "\<not> flag_coverage (initial_state False True)
   \<and> fst (execute_syscall (\<lambda>nr args e. (0, e))
        \<lparr>name = ''prctl'', sys_nr = 157, call = Some (\<lambda>args e. (-1, 1))\<rparr> (\<lambda>_. 0)
        (initial_state False True)) = -1
   \<and> errno (snd (execute_syscall (\<lambda>nr args e. (0, e))
        \<lparr>name = ''prctl'', sys_nr = 157, call = Some (\<lambda>args e. (-1, 1))\<rparr> (\<lambda>_. 0)
        (initial_state False True))) = 1
   \<and> EINVAL \<noteq> 1"
  by (simp add: execute_syscall_def initial_state_def EINVAL_def)

section \<open>The kernel bitness detector\<close>

text \<open>
  Claim C5. With pointers of 8 bytes the detector answers 64-bit and makes no call. With
  any other pointer width it answers 32-bit exactly when \<^verbatim>\<open>/proc/kallsyms\<close> can be opened,
  \<^verbatim>\<open>read\<close> stores all 16 bytes asked for, and the byte at offset 8, where the separator
  follows an address of 8 hex digits, is a space or a tab; in every other case it
  answers 64-bit.
\<close>

theorem detect_kernel_bitness_result:
  "detect_kernel_bitness 8 env = (True, [])
   \<and> (\<not> fst (detect_kernel_bitness sizeof_ptr env)) =
       (sizeof_ptr \<noteq> 8
        \<and> sys_open env ''/proc/kallsyms'' \<noteq> -1
        \<and> (\<exists>bytes. sys_read env (sys_open env ''/proc/kallsyms'') = Some bytes
             \<and> 16 \<le> length bytes
             \<and> (bytes ! 8 = CHR '' '' \<or> bytes ! 8 = CHR 0x09)))"
  by (auto simp add: detect_kernel_bitness_def Let_def split: option.splits)

text \<open>
  The theorem for a 32-bit executor: on a symbol table with addresses of 8 digits, on
  one with addresses of 16 digits, and when the symbol table cannot be opened.
\<close>

theorem detect_kernel_bitness_result_witness:
  "\<not> fst (detect_kernel_bitness 4
        \<lparr>sys_open = (\<lambda>_. 3), sys_read = (\<lambda>_. Some ''c1000000 T _stext'')\<rparr>)
   \<and> fst (detect_kernel_bitness 4
        \<lparr>sys_open = (\<lambda>_. 3), sys_read = (\<lambda>_. Some ''ffffffff81000000 T _stext'')\<rparr>)
   \<and> fst (detect_kernel_bitness 4
        \<lparr>sys_open = (\<lambda>_. -1), sys_read = (\<lambda>_. Some ''c1000000 T _stext'')\<rparr>)"
  using detect_kernel_bitness_result
          [of "\<lparr>sys_open = (\<lambda>_. 3), sys_read = (\<lambda>_. Some ''c1000000 T _stext'')\<rparr>" 4]
        detect_kernel_bitness_result
          [of "\<lparr>sys_open = (\<lambda>_. 3), sys_read = (\<lambda>_. Some ''ffffffff81000000 T _stext'')\<rparr>" 4]
        detect_kernel_bitness_result
          [of "\<lparr>sys_open = (\<lambda>_. -1), sys_read = (\<lambda>_. Some ''c1000000 T _stext'')\<rparr>" 4]
  by simp

section \<open>Process termination\<close>

lemma busy_loop_never_returns: "busy_loop i = None"
proof (cases "busy_loop i")
  case None
  then show ?thesis .
next
  case (Some u)
  have False
    by (rule busy_loop.raw_induct [where P = "\<lambda>_ _. False", OF _ Some]) blast
  then show ?thesis ..
qed

text \<open>
  Claim C7. For every status, \<open>doexit\<close> does not return to its caller: either the
  termination request ends the process, or the loop that follows runs forever.
\<close>

theorem doexit_never_returns:
  "doexit exit_group_ends status \<noteq> Some Returned_to_caller
   \<and> doexit exit_group_ends status =
       (if exit_group_ends status then Some (Process_ended status) else None)"
  by (simp add: doexit_def busy_loop_never_returns)

end
